theory Spec2Isabelle
  imports Main
begin

section \<open>Values of the provisioning framework used by the stacks\<close>

text \<open>
  The repository declares two CloudFormation stacks through the AWS CDK. The values the
  constructors pass to the framework are modelled as datatypes and records; a declared
  construct is stored in the stack under the construct id it was declared with.
\<close>

datatype Duration = seconds nat | minutes nat

fun toSeconds :: "Duration \<Rightarrow> nat" where
  "toSeconds (seconds n) = n"
| "toSeconds (minutes n) = 60 * n"

datatype Peer = anyIpv4 | anyIpv6 | ipv4 string

datatype Port = tcp nat | udp nat | allTraffic

datatype Protocol = TCP | UDP

datatype InstanceClass = T2 | T3

datatype InstanceSize = NANO | MICRO | SMALL

datatype InstanceType = InstanceType_of InstanceClass InstanceSize

datatype EcsOptimizedImage = amazonLinux2 | amazonLinux2023

datatype TerminationPolicy = DEFAULT | NEWEST_INSTANCE | OLDEST_INSTANCE

datatype Monitoring = BASIC | DETAILED

datatype Principal = ServicePrincipal string | AccountPrincipal string

datatype ManagedPolicy = fromAwsManagedPolicyName string

datatype HealthCheck = HealthCheck_ec2 Duration | HealthCheck_elb Duration

datatype Signals = waitForAll Duration | waitForMinCapacity Duration

datatype InitElement = shellCommand string

text \<open>
  A construct object is referred to by its handle: the position at which it was added to
  its stack. Props that hold another construct (the security group of a launch template,
  the cluster of a service) hold its handle, so a later mutation of the referent is seen
  through every reference, as with the object references of the source.
\<close>

type_synonym handle = nat

record SecurityGroup =
  sg_vpc :: handle
  sg_description :: string
  sg_allowAllOutbound :: bool
  sg_securityGroupName :: string
  sg_ingressRules :: "(Peer \<times> Port) list"

record KeyPair =
  kp_keyPairName :: string

text \<open>A condition of a policy statement: operator, key and value.\<close>

type_synonym Condition = "string \<times> string \<times> string"

record PolicyStatement =
  ps_resources :: "string list"
  ps_actions :: "string list"
  ps_conditions :: "Condition list"

record PolicyDocument =
  pd_statements :: "PolicyStatement list"

record Role =
  role_roleName :: string
  role_assumedBy :: Principal
  role_inlinePolicies :: "(string \<times> PolicyDocument) list"
  role_managedPolicies :: "ManagedPolicy list"
  role_defaultPolicy :: "PolicyStatement list"

record Cluster =
  cl_vpc :: handle
  cl_clusterName :: string
  cl_capacityProviders :: "handle list"

record UserData =
  ud_commands :: "string list"

record LaunchTemplate =
  lt_launchTemplateName :: string
  lt_securityGroup :: handle
  lt_instanceType :: InstanceType
  lt_keyPair :: handle
  lt_role :: handle
  lt_machineImage :: EcsOptimizedImage
  lt_userData :: UserData

record CloudFormationInit =
  init_configSets :: "(string \<times> string list) list"
  init_configs :: "(string \<times> InitElement list) list"

record InitOptions =
  includeUrl :: bool
  includeRole :: bool
  printLog :: bool

record AutoScalingGroup =
  asg_autoScalingGroupName :: string
  asg_vpc :: handle
  asg_desiredCapacity :: nat
  asg_minCapacity :: nat
  asg_maxCapacity :: nat
  asg_terminationPolicies :: "TerminationPolicy list"
  asg_instanceMonitoring :: Monitoring
  asg_init :: CloudFormationInit
  asg_initOptions :: InitOptions
  asg_launchTemplate :: handle
  asg_healthCheck :: HealthCheck
  asg_signals :: Signals

record AsgCapacityProvider =
  cp_autoScalingGroup :: handle
  cp_enableManagedTerminationProtection :: bool

record AwsLogDriver =
  log_streamPrefix :: string
  log_logGroup :: handle

datatype ContainerImage = fromEcrRepository handle

record PortMapping =
  containerPort :: nat
  hostPort :: nat
  protocol :: Protocol

record ContainerHealthCheck =
  hc_command :: "string list"
  hc_interval :: Duration
  hc_timeout :: Duration
  hc_retries :: nat
  hc_startPeriod :: Duration

record ContainerDefinition =
  cd_image :: ContainerImage
  cd_cpu :: nat
  cd_memoryReservationMiB :: nat
  cd_portMappings :: "PortMapping list"
  cd_logging :: AwsLogDriver
  cd_containerName :: string
  cd_healthCheck :: ContainerHealthCheck

text \<open>
  \<open>taskDef.addContainer(id, props)\<close> declares the container as a child construct of the
  task definition, so the task definition owns the list of its containers, each under its
  construct id.
\<close>

record Ec2TaskDefinition =
  td_family :: string
  td_containers :: "(string \<times> ContainerDefinition) list"

record Ec2Service =
  svc_cluster :: handle
  svc_taskDefinition :: handle
  svc_desiredCount :: nat
  svc_serviceName :: string
  svc_minHealthyPercent :: nat
  svc_maxHealthyPercent :: nat

record CfnOutput =
  out_value :: string

datatype Resource =
    Vpc_fromLookup string
  | SecurityGroup_new SecurityGroup
  | KeyPair_new KeyPair
  | Role_new Role
  | Cluster_new Cluster
  | LaunchTemplate_new LaunchTemplate
  | AutoScalingGroup_new AutoScalingGroup
  | AsgCapacityProvider_new AsgCapacityProvider
  | LogGroup_fromLogGroupName string
  | Ec2TaskDefinition_new Ec2TaskDefinition
  | Repository_fromRepositoryName string
  | Ec2Service_new Ec2Service
  | CfnOutput_new CfnOutput

section \<open>Stacks\<close>

record Env =
  account :: "string option"
  region :: "string option"

record StackProps =
  env :: "Env option"

record StrapiStackProps = StackProps +
  vpcId :: string

text \<open>
  \<open>NextjsStackProps\<close> declares the same single field as \<open>StrapiStackProps\<close>; the two
  interfaces are the same structural type.
\<close>

type_synonym NextjsStackProps = StrapiStackProps

record Stack =
  stack_id :: string
  stackName :: string
  stack_env :: "Env option"
  children :: "(string \<times> Resource) list"

text \<open>
  What the constructors call but is not code of this repository is taken as a parameter:
  \<^item> \<open>startCase\<close> of lodash;
  \<^item> the name the framework resolves for \<open>Stack.of(this).stackName\<close> from the stack's id
    and environment;
  \<^item> what the framework itself adds to the objects it is handed. An auto-scaling group
    created with \<open>init\<close> appends the commands of its CloudFormation-init block to the user
    data of its launch template (they depend on the construct ids of the group and of the
    role, on the init configuration and on its options) and adds statements to the
    default policy of the launch template's role. Registering a capacity provider with a
    cluster appends the commands that configure the ECS agent (they depend on the
    cluster's construct id and name) to the same user data, and adds the statements of a
    container instance to the same role.

  The model describes the declarations of a construction the framework accepts. Where
  the framework refuses one (a network lookup in a stack whose account or region is not
  set, a name it does not admit), the program stops with an error and declares nothing.
\<close>

record framework =
  startCase :: "string \<Rightarrow> string"
  resolveStackName :: "string \<Rightarrow> Env option \<Rightarrow> string"
  cfnInitCommands :: "string \<Rightarrow> string \<Rightarrow> CloudFormationInit \<Rightarrow> InitOptions \<Rightarrow> string list"
  cfnInitStatements :: "PolicyStatement list"
  ecsInstanceCommands :: "string \<Rightarrow> string \<Rightarrow> string list"
  ecsInstanceStatements :: "string \<Rightarrow> PolicyStatement list"

text \<open>\<open>super(scope, id, props)\<close>, followed by the parameter property \<open>this.id = id\<close>.\<close>

definition Stack_init :: "framework \<Rightarrow> string \<Rightarrow> 'a StackProps_scheme \<Rightarrow> Stack" where
  "Stack_init fw sid props =
     \<lparr>stack_id = sid, stackName = resolveStackName fw sid (env props),
      stack_env = env props, children = []\<rparr>"

text \<open>\<open>new C(this, cid, props)\<close>: the construct is appended to the stack's children.\<close>

definition construct :: "string \<Rightarrow> Resource \<Rightarrow> Stack \<Rightarrow> handle \<times> Stack" where
  "construct cid r this =
     (length (children this), this\<lparr>children := children this @ [(cid, r)]\<rparr>)"

text \<open>
  A method that mutates a construct declared earlier rewrites the child at that handle;
  a handle beyond the children leaves the stack as it is.
\<close>

fun modifyAt :: "nat \<Rightarrow> ('a \<Rightarrow> 'a) \<Rightarrow> 'a list \<Rightarrow> 'a list" where
  "modifyAt h f [] = []"
| "modifyAt 0 f (x # xs) = f x # xs"
| "modifyAt (Suc h) f (x # xs) = x # modifyAt h f xs"

definition modify :: "handle \<Rightarrow> (Resource \<Rightarrow> Resource) \<Rightarrow> Stack \<Rightarrow> Stack" where
  "modify h f this = this\<lparr>children := modifyAt h (apsnd f) (children this)\<rparr>"

fun SecurityGroup_addIngressRule :: "Peer \<Rightarrow> Port \<Rightarrow> Resource \<Rightarrow> Resource" where
  "SecurityGroup_addIngressRule peer port (SecurityGroup_new sg) =
     SecurityGroup_new (sg\<lparr>sg_ingressRules := sg_ingressRules sg @ [(peer, port)]\<rparr>)"
| "SecurityGroup_addIngressRule peer port r = r"

definition addIngressRule :: "handle \<Rightarrow> Peer \<Rightarrow> Port \<Rightarrow> Stack \<Rightarrow> Stack" where
  "addIngressRule h peer port = modify h (SecurityGroup_addIngressRule peer port)"

fun Cluster_addAsgCapacityProvider :: "handle \<Rightarrow> Resource \<Rightarrow> Resource" where
  "Cluster_addAsgCapacityProvider p (Cluster_new c) =
     Cluster_new (c\<lparr>cl_capacityProviders := cl_capacityProviders c @ [p]\<rparr>)"
| "Cluster_addAsgCapacityProvider p r = r"

definition UserData_forLinux :: UserData where
  "UserData_forLinux = \<lparr>ud_commands = []\<rparr>"

definition addCommands :: "string list \<Rightarrow> UserData \<Rightarrow> UserData" where
  "addCommands cmds u = u\<lparr>ud_commands := ud_commands u @ cmds\<rparr>"

text \<open>
  The user data and the role handed to a launch template stay the objects they are: what
  is later added through the launch template's auto-scaling group lands in them.
\<close>

fun LaunchTemplate_addUserData :: "string list \<Rightarrow> Resource \<Rightarrow> Resource" where
  "LaunchTemplate_addUserData cmds (LaunchTemplate_new t) =
     LaunchTemplate_new (t\<lparr>lt_userData := addCommands cmds (lt_userData t)\<rparr>)"
| "LaunchTemplate_addUserData cmds r = r"

fun Role_addToPrincipalPolicy :: "PolicyStatement list \<Rightarrow> Resource \<Rightarrow> Resource" where
  "Role_addToPrincipalPolicy sts (Role_new r) =
     Role_new (r\<lparr>role_defaultPolicy := role_defaultPolicy r @ sts\<rparr>)"
| "Role_addToPrincipalPolicy sts r = r"

text \<open>The child behind a handle, with its construct id.\<close>

definition child :: "Stack \<Rightarrow> handle \<Rightarrow> (string \<times> Resource) option" where
  "child this h = (if h < length (children this) then Some (children this ! h) else None)"

text \<open>
  \<open>new AutoScalingGroup(this, cid, props)\<close> with \<open>init\<close>: the group is declared, then its
  CloudFormation init is applied to the role and the user data of its launch template.
\<close>

definition applyCloudFormationInit :: "framework \<Rightarrow> handle \<Rightarrow> Stack \<Rightarrow> Stack" where
  "applyCloudFormationInit fw g this =
     (case child this g of
        Some (gid, AutoScalingGroup_new a) \<Rightarrow>
          (case child this (asg_launchTemplate a) of
             Some (tid, LaunchTemplate_new t) \<Rightarrow>
               (case child this (lt_role t) of
                  Some (rid, Role_new r) \<Rightarrow>
                    modify (asg_launchTemplate a)
                      (LaunchTemplate_addUserData
                         (cfnInitCommands fw gid rid (asg_init a) (asg_initOptions a)))
                      (modify (lt_role t)
                         (Role_addToPrincipalPolicy (cfnInitStatements fw)) this)
                | _ \<Rightarrow> this)
           | _ \<Rightarrow> this)
      | _ \<Rightarrow> this)"

definition AutoScalingGroup_construct ::
    "framework \<Rightarrow> string \<Rightarrow> AutoScalingGroup \<Rightarrow> Stack \<Rightarrow> handle \<times> Stack" where
  "AutoScalingGroup_construct fw cid a this =
     (let (g, this) = construct cid (AutoScalingGroup_new a) this
      in (g, applyCloudFormationInit fw g this))"

text \<open>
  \<open>cluster.addAsgCapacityProvider(provider)\<close>: the auto-scaling group of the provider is
  configured for the cluster, through its launch template, and the provider is
  registered with the cluster.
\<close>

definition configureAutoScalingGroup ::
    "framework \<Rightarrow> handle \<Rightarrow> handle \<Rightarrow> Stack \<Rightarrow> Stack" where
  "configureAutoScalingGroup fw c g this =
     (case child this c of
        Some (cid, Cluster_new cl) \<Rightarrow>
          (case child this g of
             Some (gid, AutoScalingGroup_new a) \<Rightarrow>
               (case child this (asg_launchTemplate a) of
                  Some (tid, LaunchTemplate_new t) \<Rightarrow>
                    modify (lt_role t)
                      (Role_addToPrincipalPolicy (ecsInstanceStatements fw cid))
                      (modify (asg_launchTemplate a)
                         (LaunchTemplate_addUserData
                            (ecsInstanceCommands fw cid (cl_clusterName cl))) this)
                | _ \<Rightarrow> this)
           | _ \<Rightarrow> this)
      | _ \<Rightarrow> this)"

definition addAsgCapacityProvider ::
    "framework \<Rightarrow> handle \<Rightarrow> handle \<Rightarrow> Stack \<Rightarrow> Stack" where
  "addAsgCapacityProvider fw c p this =
     modify c (Cluster_addAsgCapacityProvider p)
       (case child this p of
          Some (pid, AsgCapacityProvider_new cp) \<Rightarrow>
            configureAutoScalingGroup fw c (cp_autoScalingGroup cp) this
        | _ \<Rightarrow> this)"

fun Ec2TaskDefinition_addContainer ::
    "string \<Rightarrow> ContainerDefinition \<Rightarrow> Resource \<Rightarrow> Resource" where
  "Ec2TaskDefinition_addContainer cid c (Ec2TaskDefinition_new t) =
     Ec2TaskDefinition_new (t\<lparr>td_containers := td_containers t @ [(cid, c)]\<rparr>)"
| "Ec2TaskDefinition_addContainer cid c r = r"

definition addContainer :: "handle \<Rightarrow> string \<Rightarrow> ContainerDefinition \<Rightarrow> Stack \<Rightarrow> Stack" where
  "addContainer h cid c = modify h (Ec2TaskDefinition_addContainer cid c)"

text \<open>
  \<open>service.serviceName\<close>: the name attribute of a declared service (the empty string for
  a handle that is not a service, which the constructors never read).
\<close>

definition serviceName :: "handle \<Rightarrow> Stack \<Rightarrow> string" where
  "serviceName h this =
     (if h < length (children this)
      then (case snd (children this ! h) of
              Ec2Service_new s \<Rightarrow> svc_serviceName s
            | _ \<Rightarrow> [])
      else [])"

subsection \<open>The CMS stack (lib/strapi.ts)\<close>

definition StrapiStack_getConstructId :: "framework \<Rightarrow> Stack \<Rightarrow> string \<Rightarrow> string" where
  "StrapiStack_getConstructId fw this name =
     ''stack-'' @ stack_id this @ ''-'' @ startCase fw name"

definition StrapiStack :: "framework \<Rightarrow> string \<Rightarrow> StrapiStackProps \<Rightarrow> Stack" where
  "StrapiStack fw sid props =
    (let this = Stack_init fw sid props;
         \<comment> \<open>vpc\<close>
         (vpc, this) = construct ''vpc'' (Vpc_fromLookup (vpcId props)) this;
         \<comment> \<open>Create a security group\<close>
         (securityGroup, this) = construct (StrapiStack_getConstructId fw this ''sg'')
           (SecurityGroup_new \<lparr>
              sg_vpc = vpc,
              sg_description = ''Strapi Security Group'',
              sg_allowAllOutbound = True,
              sg_securityGroupName = StrapiStack_getConstructId fw this ''sg'',
              sg_ingressRules = []\<rparr>) this;
         this = addIngressRule securityGroup anyIpv4 (tcp 22) this;
         this = addIngressRule securityGroup anyIpv4 (tcp 80) this;
         this = addIngressRule securityGroup anyIpv4 (tcp 443) this;
         this = addIngressRule securityGroup anyIpv4 (tcp 1337) this;
         \<comment> \<open>keypair\<close>
         (keyPair, this) = construct (StrapiStack_getConstructId fw this ''keyPair'')
           (KeyPair_new \<lparr>
              kp_keyPairName = StrapiStack_getConstructId fw this ''keyPair''\<rparr>) this;
         \<comment> \<open>role for the EC2 instance to assume\<close>
         (role, this) = construct (StrapiStack_getConstructId fw this ''role'')
           (Role_new \<lparr>
              role_roleName = StrapiStack_getConstructId fw this ''role'',
              role_assumedBy = ServicePrincipal ''ec2.amazonaws.com'',
              role_inlinePolicies =
                [(''RetentionPolicy'',
                  \<lparr>pd_statements =
                     [\<lparr>ps_resources = [''*''],
                       ps_actions = [''logs:PutRetentionPolicy''],
                       ps_conditions = []\<rparr>]\<rparr>)],
              role_managedPolicies =
                [fromAwsManagedPolicyName ''AmazonSSMManagedInstanceCore'',
                 fromAwsManagedPolicyName ''CloudWatchAgentServerPolicy'',
                 fromAwsManagedPolicyName
                   ''service-role/AWSAppRunnerServicePolicyForECRAccess'',
                 fromAwsManagedPolicyName
                   ''service-role/AmazonEC2ContainerServiceforEC2Role''],
              role_defaultPolicy = []\<rparr>) this;
         \<comment> \<open>ECS Cluster\<close>
         (cluster, this) = construct (StrapiStack_getConstructId fw this ''cluster'')
           (Cluster_new \<lparr>
              cl_vpc = vpc,
              cl_clusterName = ''nextjs_strapi'',
              cl_capacityProviders = []\<rparr>) this;
         \<comment> \<open>User Data\<close>
         userData = UserData_forLinux;
         userData = addCommands
           [''#!/bin/bash'',
            ''yum update -y'',
            ''yum install -y aws-cfn-bootstrap'',
            ''/opt/aws/bin/cfn-signal --stack '' @ stackName this @ '' --resource ''
              @ StrapiStack_getConstructId fw this ''asg''
              @ '' --region us-east-1 --exit-code $?''] userData;
         (launchTemplate, this) =
           construct (StrapiStack_getConstructId fw this ''instance'')
           (LaunchTemplate_new \<lparr>
              lt_launchTemplateName = ''strapi'',
              lt_securityGroup = securityGroup,
              lt_instanceType = InstanceType_of T2 MICRO,
              lt_keyPair = keyPair,
              lt_role = role,
              lt_machineImage = amazonLinux2023,
              lt_userData = userData\<rparr>) this;
         (autoScalingGroup, this) =
           AutoScalingGroup_construct fw (StrapiStack_getConstructId fw this ''asg'')
           \<lparr>asg_autoScalingGroupName = StrapiStack_getConstructId fw this ''asg'',
              asg_vpc = vpc,
              asg_desiredCapacity = 1,
              asg_minCapacity = 1,
              asg_maxCapacity = 1,
              asg_terminationPolicies = [OLDEST_INSTANCE],
              asg_instanceMonitoring = BASIC,
              asg_init = \<lparr>init_configSets = [(''default'', [''config''])],
                          init_configs = [(''config'', [])]\<rparr>,
              asg_initOptions = \<lparr>includeUrl = True, includeRole = True, printLog = True\<rparr>,
              asg_launchTemplate = launchTemplate,
              asg_healthCheck = HealthCheck_ec2 (minutes 5),
              asg_signals = waitForAll (minutes 5)\<rparr> this;
         (capacityProvider, this) =
           construct (StrapiStack_getConstructId fw this ''AsgCapacityProvider'')
           (AsgCapacityProvider_new \<lparr>
              cp_autoScalingGroup = autoScalingGroup,
              cp_enableManagedTerminationProtection = False\<rparr>) this;
         this = addAsgCapacityProvider fw cluster capacityProvider this;
         \<comment> \<open>Cloudwatch\<close>
         (logGroup, this) = construct (StrapiStack_getConstructId fw this ''logGroup'')
           (LogGroup_fromLogGroupName ''strapi'') this;
         logging = \<lparr>log_streamPrefix = ''strapi'', log_logGroup = logGroup\<rparr>;
         (taskDef, this) = construct ''strapi''
           (Ec2TaskDefinition_new \<lparr>td_family = ''strapi'', td_containers = []\<rparr>) this;
         (repo, this) = construct (StrapiStack_getConstructId fw this ''repo'')
           (Repository_fromRepositoryName ''strapi-sample'') this;
         this = addContainer taskDef (StrapiStack_getConstructId fw this ''strapiContainer'')
           \<lparr>cd_image = fromEcrRepository repo,
            cd_cpu = 256,
            cd_memoryReservationMiB = 256,
            cd_portMappings = [\<lparr>containerPort = 1337, hostPort = 80, protocol = TCP\<rparr>],
            cd_logging = logging,
            cd_containerName = ''strapi'',
            cd_healthCheck = \<lparr>
              hc_command = [''CMD-SHELL'', ''curl -f http://localhost:1337 || exit 1''],
              hc_interval = seconds 30,
              hc_timeout = seconds 5,
              hc_retries = 2,
              hc_startPeriod = seconds 60\<rparr>\<rparr> this;
         (service, this) = construct (StrapiStack_getConstructId fw this ''strapi'')
           (Ec2Service_new \<lparr>
              svc_cluster = cluster,
              svc_taskDefinition = taskDef,
              svc_desiredCount = 1,
              svc_serviceName = StrapiStack_getConstructId fw this ''service'',
              svc_minHealthyPercent = 0,
              svc_maxHealthyPercent = 100\<rparr>) this;
         (output, this) = construct ''Service Name''
           (CfnOutput_new \<lparr>out_value = serviceName service this\<rparr>) this
     in this)"

subsection \<open>The web front-end stack (lib/nextjs.ts)\<close>

definition NextjsStack_getConstructId :: "framework \<Rightarrow> Stack \<Rightarrow> string \<Rightarrow> string" where
  "NextjsStack_getConstructId fw this name =
     ''stack-'' @ stack_id this @ ''-'' @ startCase fw name"

definition NextjsStack :: "framework \<Rightarrow> string \<Rightarrow> NextjsStackProps \<Rightarrow> Stack" where
  "NextjsStack fw sid props =
    (let this = Stack_init fw sid props;
         \<comment> \<open>vpc\<close>
         (vpc, this) = construct ''vpc'' (Vpc_fromLookup (vpcId props)) this;
         \<comment> \<open>Create a security group\<close>
         (securityGroup, this) = construct (NextjsStack_getConstructId fw this ''sg'')
           (SecurityGroup_new \<lparr>
              sg_vpc = vpc,
              sg_description = ''Nextjs Security Group'',
              sg_allowAllOutbound = True,
              sg_securityGroupName = NextjsStack_getConstructId fw this ''sg'',
              sg_ingressRules = []\<rparr>) this;
         this = addIngressRule securityGroup anyIpv4 (tcp 22) this;
         this = addIngressRule securityGroup anyIpv4 (tcp 80) this;
         this = addIngressRule securityGroup anyIpv4 (tcp 443) this;
         this = addIngressRule securityGroup anyIpv4 (tcp 3000) this;
         \<comment> \<open>keypair\<close>
         (keyPair, this) = construct (NextjsStack_getConstructId fw this ''keyPair'')
           (KeyPair_new \<lparr>
              kp_keyPairName = NextjsStack_getConstructId fw this ''keyPair''\<rparr>) this;
         \<comment> \<open>role for the EC2 instance to assume\<close>
         (role, this) = construct (NextjsStack_getConstructId fw this ''role'')
           (Role_new \<lparr>
              role_roleName = NextjsStack_getConstructId fw this ''role'',
              role_assumedBy = ServicePrincipal ''ec2.amazonaws.com'',
              role_inlinePolicies =
                [(''RetentionPolicy'',
                  \<lparr>pd_statements =
                     [\<lparr>ps_resources = [''*''],
                       ps_actions = [''logs:PutRetentionPolicy''],
                       ps_conditions = []\<rparr>]\<rparr>)],
              role_managedPolicies =
                [fromAwsManagedPolicyName ''AmazonSSMManagedInstanceCore'',
                 fromAwsManagedPolicyName ''CloudWatchAgentServerPolicy'',
                 fromAwsManagedPolicyName
                   ''service-role/AWSAppRunnerServicePolicyForECRAccess'',
                 fromAwsManagedPolicyName
                   ''service-role/AmazonEC2ContainerServiceforEC2Role''],
              role_defaultPolicy = []\<rparr>) this;
         \<comment> \<open>ECS Cluster\<close>
         (cluster, this) = construct (NextjsStack_getConstructId fw this ''cluster'')
           (Cluster_new \<lparr>
              cl_vpc = vpc,
              cl_clusterName = ''nextjs'',
              cl_capacityProviders = []\<rparr>) this;
         \<comment> \<open>User Data\<close>
         userData = UserData_forLinux;
         userData = addCommands
           [''#!/bin/bash'',
            ''yum update -y'',
            ''yum install -y aws-cfn-bootstrap'',
            ''/opt/aws/bin/cfn-signal --stack '' @ stackName this @ '' --resource ''
              @ NextjsStack_getConstructId fw this ''asg''
              @ '' --region us-east-1 --exit-code $?''] userData;
         (launchTemplate, this) =
           construct (NextjsStack_getConstructId fw this ''template'')
           (LaunchTemplate_new \<lparr>
              lt_launchTemplateName = ''next'',
              lt_securityGroup = securityGroup,
              lt_instanceType = InstanceType_of T2 MICRO,
              lt_keyPair = keyPair,
              lt_role = role,
              lt_machineImage = amazonLinux2023,
              lt_userData = userData\<rparr>) this;
         (autoScalingGroup, this) =
           AutoScalingGroup_construct fw (NextjsStack_getConstructId fw this ''asg'')
           \<lparr>asg_autoScalingGroupName = NextjsStack_getConstructId fw this ''asg'',
              asg_vpc = vpc,
              asg_desiredCapacity = 1,
              asg_minCapacity = 1,
              asg_maxCapacity = 1,
              asg_terminationPolicies = [OLDEST_INSTANCE],
              asg_instanceMonitoring = BASIC,
              asg_init = \<lparr>init_configSets = [(''default'', [''config''])],
                          init_configs = [(''config'', [])]\<rparr>,
              asg_initOptions = \<lparr>includeUrl = True, includeRole = True, printLog = True\<rparr>,
              asg_launchTemplate = launchTemplate,
              asg_healthCheck = HealthCheck_ec2 (minutes 5),
              asg_signals = waitForAll (minutes 5)\<rparr> this;
         (capacityProvider, this) =
           construct (NextjsStack_getConstructId fw this ''AsgCapacityProvider'')
           (AsgCapacityProvider_new \<lparr>
              cp_autoScalingGroup = autoScalingGroup,
              cp_enableManagedTerminationProtection = False\<rparr>) this;
         this = addAsgCapacityProvider fw cluster capacityProvider this;
         \<comment> \<open>Cloudwatch\<close>
         (logGroup, this) = construct (NextjsStack_getConstructId fw this ''logGroup'')
           (LogGroup_fromLogGroupName ''nextjs'') this;
         logging = \<lparr>log_streamPrefix = ''nextjs'', log_logGroup = logGroup\<rparr>;
         (taskDef, this) = construct ''nextjs''
           (Ec2TaskDefinition_new \<lparr>td_family = ''nextjs'', td_containers = []\<rparr>) this;
         (repo, this) = construct (NextjsStack_getConstructId fw this ''repo'')
           (Repository_fromRepositoryName ''nextjs-sample'') this;
         this = addContainer taskDef (NextjsStack_getConstructId fw this ''nextjsContainer'')
           \<lparr>cd_image = fromEcrRepository repo,
            cd_cpu = 256,
            cd_memoryReservationMiB = 256,
            cd_portMappings = [\<lparr>containerPort = 3000, hostPort = 80, protocol = TCP\<rparr>],
            cd_logging = logging,
            cd_containerName = ''nextjs'',
            cd_healthCheck = \<lparr>
              hc_command = [''CMD-SHELL'', ''curl -f http://localhost:3000 || exit 1''],
              hc_interval = seconds 30,
              hc_timeout = seconds 5,
              hc_retries = 2,
              hc_startPeriod = seconds 60\<rparr>\<rparr> this;
         (service, this) = construct (NextjsStack_getConstructId fw this ''nextjs'')
           (Ec2Service_new \<lparr>
              svc_cluster = cluster,
              svc_taskDefinition = taskDef,
              svc_desiredCount = 1,
              svc_serviceName = NextjsStack_getConstructId fw this ''service'',
              svc_minHealthyPercent = 0,
              svc_maxHealthyPercent = 100\<rparr>) this;
         (output, this) = construct ''Service Name''
           (CfnOutput_new \<lparr>out_value = serviceName service this\<rparr>) this
     in this)"

subsection \<open>The entry point (bin/infra-sample.ts)\<close>

text \<open>
  The process environment is a partial map from variable names to values; both stacks
  are created with the same props: the environment taken from the two variables, and
  the identifier of the existing network.
\<close>

definition commonVpcId :: string where
  "commonVpcId = ''vpc-0c92b6779493dfa0c''"

definition commonStackProps :: "(string \<rightharpoonup> string) \<Rightarrow> StackProps" where
  "commonStackProps process_env =
     \<lparr>env = Some \<lparr>account = process_env ''CDK_DEFAULT_ACCOUNT'',
                       region = process_env ''CDK_DEFAULT_REGION''\<rparr>\<rparr>"

text \<open>The app holds the stacks in the order they are created.\<close>

type_synonym App = "Stack list"

definition infra_sample :: "framework \<Rightarrow> (string \<rightharpoonup> string) \<Rightarrow> App" where
  "infra_sample fw process_env =
     [StrapiStack fw ''strapi''
        \<lparr>env = env (commonStackProps process_env), vpcId = commonVpcId\<rparr>,
      NextjsStack fw ''nextjs''
        \<lparr>env = env (commonStackProps process_env), vpcId = commonVpcId\<rparr>]"

section \<open>Reading a declared stack\<close>

text \<open>
  The constructs of one kind declared by a stack, each with its construct id, in
  declaration order; and the construct behind a handle.
\<close>

definition resolve :: "Stack \<Rightarrow> handle \<Rightarrow> Resource option" where
  "resolve s h = (if h < length (children s) then Some (snd (children s ! h)) else None)"

definition networks :: "Stack \<Rightarrow> (string \<times> string) list" where
  "networks s = List.map_filter
     (\<lambda>(cid, r). case r of Vpc_fromLookup v \<Rightarrow> Some (cid, v) | _ \<Rightarrow> None) (children s)"

definition securityGroups :: "Stack \<Rightarrow> (string \<times> SecurityGroup) list" where
  "securityGroups s = List.map_filter
     (\<lambda>(cid, r). case r of SecurityGroup_new g \<Rightarrow> Some (cid, g) | _ \<Rightarrow> None) (children s)"

definition keyPairs :: "Stack \<Rightarrow> (string \<times> KeyPair) list" where
  "keyPairs s = List.map_filter
     (\<lambda>(cid, r). case r of KeyPair_new k \<Rightarrow> Some (cid, k) | _ \<Rightarrow> None) (children s)"

definition roles :: "Stack \<Rightarrow> (string \<times> Role) list" where
  "roles s = List.map_filter
     (\<lambda>(cid, r). case r of Role_new x \<Rightarrow> Some (cid, x) | _ \<Rightarrow> None) (children s)"

definition clusters :: "Stack \<Rightarrow> (string \<times> Cluster) list" where
  "clusters s = List.map_filter
     (\<lambda>(cid, r). case r of Cluster_new c \<Rightarrow> Some (cid, c) | _ \<Rightarrow> None) (children s)"

definition launchTemplates :: "Stack \<Rightarrow> (string \<times> LaunchTemplate) list" where
  "launchTemplates s = List.map_filter
     (\<lambda>(cid, r). case r of LaunchTemplate_new t \<Rightarrow> Some (cid, t) | _ \<Rightarrow> None) (children s)"

definition autoScalingGroups :: "Stack \<Rightarrow> (string \<times> AutoScalingGroup) list" where
  "autoScalingGroups s = List.map_filter
     (\<lambda>(cid, r). case r of AutoScalingGroup_new a \<Rightarrow> Some (cid, a) | _ \<Rightarrow> None)
     (children s)"

definition logGroups :: "Stack \<Rightarrow> (string \<times> string) list" where
  "logGroups s = List.map_filter
     (\<lambda>(cid, r). case r of LogGroup_fromLogGroupName n \<Rightarrow> Some (cid, n) | _ \<Rightarrow> None)
     (children s)"

definition repositories :: "Stack \<Rightarrow> (string \<times> string) list" where
  "repositories s = List.map_filter
     (\<lambda>(cid, r). case r of Repository_fromRepositoryName n \<Rightarrow> Some (cid, n) | _ \<Rightarrow> None)
     (children s)"

definition taskDefinitions :: "Stack \<Rightarrow> (string \<times> Ec2TaskDefinition) list" where
  "taskDefinitions s = List.map_filter
     (\<lambda>(cid, r). case r of Ec2TaskDefinition_new t \<Rightarrow> Some (cid, t) | _ \<Rightarrow> None)
     (children s)"

definition containers :: "Stack \<Rightarrow> (string \<times> ContainerDefinition) list" where
  "containers s = concat (map (\<lambda>(cid, t). td_containers t) (taskDefinitions s))"

definition services :: "Stack \<Rightarrow> (string \<times> Ec2Service) list" where
  "services s = List.map_filter
     (\<lambda>(cid, r). case r of Ec2Service_new x \<Rightarrow> Some (cid, x) | _ \<Rightarrow> None) (children s)"

definition outputs :: "Stack \<Rightarrow> (string \<times> CfnOutput) list" where
  "outputs s = List.map_filter
     (\<lambda>(cid, r). case r of CfnOutput_new x \<Rightarrow> Some (cid, x) | _ \<Rightarrow> None) (children s)"

text \<open>
  The construct ids of the security group, key pair, role, auto-scaling group,
  repository reference, log-group reference, containers and service of a stack; and the
  physical names given to those of them that are declared with one.
\<close>

definition namedResourceIds :: "Stack \<Rightarrow> string list" where
  "namedResourceIds s =
     map fst (securityGroups s) @ map fst (keyPairs s) @ map fst (roles s)
     @ map fst (autoScalingGroups s) @ map fst (repositories s) @ map fst (logGroups s)
     @ map fst (containers s) @ map fst (services s)"

definition physicalNames :: "Stack \<Rightarrow> string list" where
  "physicalNames s =
     map (\<lambda>(cid, g). sg_securityGroupName g) (securityGroups s)
     @ map (\<lambda>(cid, k). kp_keyPairName k) (keyPairs s)
     @ map (\<lambda>(cid, r). role_roleName r) (roles s)
     @ map (\<lambda>(cid, a). asg_autoScalingGroupName a) (autoScalingGroups s)
     @ map (\<lambda>(cid, x). svc_serviceName x) (services s)"

text \<open>
  The policies a role carries, each as the list of its statements: the inline policies
  it was declared with, then its default policy, which exists once a statement has been
  added to the role.
\<close>

definition carriedPolicies :: "Role \<Rightarrow> PolicyStatement list list" where
  "carriedPolicies r =
     map (\<lambda>(n, d). pd_statements d) (role_inlinePolicies r)
     @ (if role_defaultPolicy r = [] then [] else [role_defaultPolicy r])"

definition rolePolicies :: "Stack \<Rightarrow> PolicyStatement list list list" where
  "rolePolicies s = map (\<lambda>(cid, r). carriedPolicies r) (roles s)"







text \<open>
  The auto-scaling groups a cluster draws its capacity from: those behind the capacity
  providers registered with the cluster.
\<close>

definition capacityOf :: "Stack \<Rightarrow> Cluster \<Rightarrow> AutoScalingGroup list" where
  "capacityOf s c = concat (map
     (\<lambda>p. case resolve s p of
            Some (AsgCapacityProvider_new cp) \<Rightarrow>
              (case resolve s (cp_autoScalingGroup cp) of
                 Some (AutoScalingGroup_new a) \<Rightarrow> [a]
               | _ \<Rightarrow> [])
          | _ \<Rightarrow> [])
     (cl_capacityProviders c))"

text \<open>The scaling bounds of an auto-scaling group, as (min, max, desired).\<close>

definition scalingBounds :: "AutoScalingGroup \<Rightarrow> nat \<times> nat \<times> nat" where
  "scalingBounds a = (asg_minCapacity a, asg_maxCapacity a, asg_desiredCapacity a)"

text \<open>The kind of a declaration, with everything it was declared with left out.\<close>

datatype Kind =
    NetworkLookup | SecurityGroupK | KeyPairK | RoleK | ClusterK | LaunchTemplateK
  | AutoScalingGroupK | CapacityProviderK | LogGroupK | TaskDefinitionK | ContainerK
  | RepositoryK | ServiceK | OutputK

fun kindOf :: "Resource \<Rightarrow> Kind list" where
  "kindOf (Vpc_fromLookup v) = [NetworkLookup]"
| "kindOf (SecurityGroup_new g) = [SecurityGroupK]"
| "kindOf (KeyPair_new k) = [KeyPairK]"
| "kindOf (Role_new x) = [RoleK]"
| "kindOf (Cluster_new c) = [ClusterK]"
| "kindOf (LaunchTemplate_new t) = [LaunchTemplateK]"
| "kindOf (AutoScalingGroup_new a) = [AutoScalingGroupK]"
| "kindOf (AsgCapacityProvider_new p) = [CapacityProviderK]"
| "kindOf (LogGroup_fromLogGroupName n) = [LogGroupK]"
| "kindOf (Ec2TaskDefinition_new t) = TaskDefinitionK # map (\<lambda>c. ContainerK) (td_containers t)"
| "kindOf (Repository_fromRepositoryName n) = [RepositoryK]"
| "kindOf (Ec2Service_new x) = [ServiceK]"
| "kindOf (CfnOutput_new x) = [OutputK]"

definition declarations :: "Stack \<Rightarrow> Kind list" where
  "declarations s = concat (map (\<lambda>(cid, r). kindOf r) (children s))"

section \<open>The two stacks as one construction\<close>

text \<open>
  The specification describes the two stacks as the same sequence of declarations that
  differs in per-stack constants only. This is that description written out: the
  constants of a stack, and the construction over them. The stack id is the argument
  of the construction; the other constants are the names and descriptions, the
  application port, the health-check URL, the registry repository, the log group, the
  cluster name and the launch template name.
\<close>

record StackConstants =
  securityGroupDescription :: string
  applicationPort :: nat
  clusterName :: string
  launchTemplateId :: string
  launchTemplateName :: string
  logStreamPrefix :: string
  logGroupName :: string
  taskDefinitionId :: string
  taskFamily :: string
  repositoryName :: string
  containerId :: string
  containerName :: string
  healthCheckUrl :: string
  serviceId :: string

text \<open>The naming convention: the stack identifier combined with the title-cased name.\<close>

definition resourceName :: "framework \<Rightarrow> string \<Rightarrow> string \<Rightarrow> string" where
  "resourceName fw sid name = ''stack-'' @ sid @ ''-'' @ startCase fw name"

definition stackTemplate ::
    "StackConstants \<Rightarrow> framework \<Rightarrow> string \<Rightarrow> StrapiStackProps \<Rightarrow> Stack" where
  "stackTemplate k fw sid props =
    (let this = Stack_init fw sid props;
         (vpc, this) = construct ''vpc'' (Vpc_fromLookup (vpcId props)) this;
         (securityGroup, this) = construct (resourceName fw sid ''sg'')
           (SecurityGroup_new \<lparr>
              sg_vpc = vpc,
              sg_description = securityGroupDescription k,
              sg_allowAllOutbound = True,
              sg_securityGroupName = resourceName fw sid ''sg'',
              sg_ingressRules = []\<rparr>) this;
         this = addIngressRule securityGroup anyIpv4 (tcp 22) this;
         this = addIngressRule securityGroup anyIpv4 (tcp 80) this;
         this = addIngressRule securityGroup anyIpv4 (tcp 443) this;
         this = addIngressRule securityGroup anyIpv4 (tcp (applicationPort k)) this;
         (keyPair, this) = construct (resourceName fw sid ''keyPair'')
           (KeyPair_new \<lparr>
              kp_keyPairName = resourceName fw sid ''keyPair''\<rparr>) this;
         (role, this) = construct (resourceName fw sid ''role'')
           (Role_new \<lparr>
              role_roleName = resourceName fw sid ''role'',
              role_assumedBy = ServicePrincipal ''ec2.amazonaws.com'',
              role_inlinePolicies =
                [(''RetentionPolicy'',
                  \<lparr>pd_statements =
                     [\<lparr>ps_resources = [''*''],
                       ps_actions = [''logs:PutRetentionPolicy''],
                       ps_conditions = []\<rparr>]\<rparr>)],
              role_managedPolicies =
                [fromAwsManagedPolicyName ''AmazonSSMManagedInstanceCore'',
                 fromAwsManagedPolicyName ''CloudWatchAgentServerPolicy'',
                 fromAwsManagedPolicyName
                   ''service-role/AWSAppRunnerServicePolicyForECRAccess'',
                 fromAwsManagedPolicyName
                   ''service-role/AmazonEC2ContainerServiceforEC2Role''],
              role_defaultPolicy = []\<rparr>) this;
         (cluster, this) = construct (resourceName fw sid ''cluster'')
           (Cluster_new \<lparr>
              cl_vpc = vpc,
              cl_clusterName = clusterName k,
              cl_capacityProviders = []\<rparr>) this;
         userData = UserData_forLinux;
         userData = addCommands
           [''#!/bin/bash'',
            ''yum update -y'',
            ''yum install -y aws-cfn-bootstrap'',
            ''/opt/aws/bin/cfn-signal --stack '' @ stackName this @ '' --resource ''
              @ resourceName fw sid ''asg''
              @ '' --region us-east-1 --exit-code $?''] userData;
         (launchTemplate, this) =
           construct (resourceName fw sid (launchTemplateId k))
           (LaunchTemplate_new \<lparr>
              lt_launchTemplateName = launchTemplateName k,
              lt_securityGroup = securityGroup,
              lt_instanceType = InstanceType_of T2 MICRO,
              lt_keyPair = keyPair,
              lt_role = role,
              lt_machineImage = amazonLinux2023,
              lt_userData = userData\<rparr>) this;
         (autoScalingGroup, this) =
           AutoScalingGroup_construct fw (resourceName fw sid ''asg'')
           \<lparr>asg_autoScalingGroupName = resourceName fw sid ''asg'',
              asg_vpc = vpc,
              asg_desiredCapacity = 1,
              asg_minCapacity = 1,
              asg_maxCapacity = 1,
              asg_terminationPolicies = [OLDEST_INSTANCE],
              asg_instanceMonitoring = BASIC,
              asg_init = \<lparr>init_configSets = [(''default'', [''config''])],
                          init_configs = [(''config'', [])]\<rparr>,
              asg_initOptions = \<lparr>includeUrl = True, includeRole = True, printLog = True\<rparr>,
              asg_launchTemplate = launchTemplate,
              asg_healthCheck = HealthCheck_ec2 (minutes 5),
              asg_signals = waitForAll (minutes 5)\<rparr> this;
         (capacityProvider, this) =
           construct (resourceName fw sid ''AsgCapacityProvider'')
           (AsgCapacityProvider_new \<lparr>
              cp_autoScalingGroup = autoScalingGroup,
              cp_enableManagedTerminationProtection = False\<rparr>) this;
         this = addAsgCapacityProvider fw cluster capacityProvider this;
         (logGroup, this) = construct (resourceName fw sid ''logGroup'')
           (LogGroup_fromLogGroupName (logGroupName k)) this;
         logging = \<lparr>log_streamPrefix = logStreamPrefix k, log_logGroup = logGroup\<rparr>;
         (taskDef, this) = construct (taskDefinitionId k)
           (Ec2TaskDefinition_new \<lparr>td_family = taskFamily k, td_containers = []\<rparr>) this;
         (repo, this) = construct (resourceName fw sid ''repo'')
           (Repository_fromRepositoryName (repositoryName k)) this;
         this = addContainer taskDef (resourceName fw sid (containerId k))
           \<lparr>cd_image = fromEcrRepository repo,
            cd_cpu = 256,
            cd_memoryReservationMiB = 256,
            cd_portMappings = [\<lparr>containerPort = applicationPort k, hostPort = 80, protocol = TCP\<rparr>],
            cd_logging = logging,
            cd_containerName = containerName k,
            cd_healthCheck = \<lparr>
              hc_command = [''CMD-SHELL'', ''curl -f '' @ healthCheckUrl k @ '' || exit 1''],
              hc_interval = seconds 30,
              hc_timeout = seconds 5,
              hc_retries = 2,
              hc_startPeriod = seconds 60\<rparr>\<rparr> this;
         (service, this) = construct (resourceName fw sid (serviceId k))
           (Ec2Service_new \<lparr>
              svc_cluster = cluster,
              svc_taskDefinition = taskDef,
              svc_desiredCount = 1,
              svc_serviceName = resourceName fw sid ''service'',
              svc_minHealthyPercent = 0,
              svc_maxHealthyPercent = 100\<rparr>) this;
         (output, this) = construct ''Service Name''
           (CfnOutput_new \<lparr>out_value = serviceName service this\<rparr>) this
     in this)"

definition strapiConstants :: StackConstants where
  "strapiConstants =
     \<lparr>securityGroupDescription = ''Strapi Security Group'',
      applicationPort = 1337,
      clusterName = ''nextjs_strapi'',
      launchTemplateId = ''instance'',
      launchTemplateName = ''strapi'',
      logStreamPrefix = ''strapi'',
      logGroupName = ''strapi'',
      taskDefinitionId = ''strapi'',
      taskFamily = ''strapi'',
      repositoryName = ''strapi-sample'',
      containerId = ''strapiContainer'',
      containerName = ''strapi'',
      healthCheckUrl = ''http://localhost:1337'',
      serviceId = ''strapi''\<rparr>"

definition nextjsConstants :: StackConstants where
  "nextjsConstants =
     \<lparr>securityGroupDescription = ''Nextjs Security Group'',
      applicationPort = 3000,
      clusterName = ''nextjs'',
      launchTemplateId = ''template'',
      launchTemplateName = ''next'',
      logStreamPrefix = ''nextjs'',
      logGroupName = ''nextjs'',
      taskDefinitionId = ''nextjs'',
      taskFamily = ''nextjs'',
      repositoryName = ''nextjs-sample'',
      containerId = ''nextjsContainer'',
      containerName = ''nextjs'',
      healthCheckUrl = ''http://localhost:3000'',
      serviceId = ''nextjs''\<rparr>"

section \<open>Deployment bounds of a service\<close>

text \<open>
  The platform reads the two percentages of a service against its desired count: during
  a deployment at least \<open>minHealthyPercent\<close> of the desired count, rounded up, must keep
  running, and at most \<open>maxHealthyPercent\<close> of it, rounded down, may run at once.
\<close>

definition minRunningTasks :: "Ec2Service \<Rightarrow> nat" where
  "minRunningTasks x = (svc_desiredCount x * svc_minHealthyPercent x + 99) div 100"

definition maxRunningTasks :: "Ec2Service \<Rightarrow> nat" where
  "maxRunningTasks x = svc_desiredCount x * svc_maxHealthyPercent x div 100"

section \<open>The framework at the two stacks\<close>

text \<open>
  One framework to run the constructions with, written after what the provisioning
  framework does in the two calls that reach into the launch template. A value that is
  known at deployment only is written as a reference \<open>${...}\<close>: a pseudo parameter by its
  name, a construct by its construct id (where the template has the logical id generated
  for it). The fingerprint of the init configuration, a hash, is an argument.
\<close>

text \<open>
  The results of lodash's \<open>startCase\<close> on the names the two stacks pass to it; they pass
  no other name.
\<close>

definition startCase_names :: "string \<Rightarrow> string" where
  "startCase_names n =
     (case map_of
        [(''sg'', ''Sg''), (''keyPair'', ''Key Pair''), (''role'', ''Role''),
         (''cluster'', ''Cluster''), (''asg'', ''Asg''), (''instance'', ''Instance''),
         (''template'', ''Template''),
         (''AsgCapacityProvider'', ''Asg Capacity Provider''),
         (''logGroup'', ''Log Group''), (''repo'', ''Repo''),
         (''strapiContainer'', ''Strapi Container''),
         (''nextjsContainer'', ''Nextjs Container''), (''strapi'', ''Strapi''),
         (''nextjs'', ''Nextjs''), (''service'', ''Service'')] n of
        Some t \<Rightarrow> t
      | None \<Rightarrow> n)"

definition reference :: "string \<Rightarrow> string" where
  "reference n = ''${'' @ n @ ''}''"

text \<open>
  The CloudFormation-init block: in a subshell, \<open>cfn-init\<close> and then \<open>cfn-signal\<close>, both
  located by the region, the stack and the resource of the deployment.
\<close>

definition cdk_cfnInitCommands ::
    "string \<Rightarrow> string \<Rightarrow> string \<Rightarrow> CloudFormationInit \<Rightarrow> InitOptions \<Rightarrow> string list" where
  "cdk_cfnInitCommands fingerprint gid rid init opts =
     (let locator =
            ''--region '' @ reference ''AWS::Region''
            @ '' --stack '' @ reference ''AWS::StackName''
            @ '' --resource '' @ reference gid
            @ (if includeUrl opts
               then '' --url https://cloudformation.'' @ reference ''AWS::Region''
                    @ ''.'' @ reference ''AWS::URLSuffix''
               else [])
            @ (if includeRole opts then '' --role '' @ reference rid else [])
      in [''# fingerprint: '' @ fingerprint,
          ''('',
          ''  set +e'',
          ''  /opt/aws/bin/cfn-init -v '' @ locator @ '' -c default'',
          ''  /opt/aws/bin/cfn-signal -e $? '' @ locator]
         @ (if printLog opts then [''  cat /var/log/cfn-init.log >&2''] else [])
         @ ['')''])"

definition cdk_cfnInitStatements :: "PolicyStatement list" where
  "cdk_cfnInitStatements =
     [\<lparr>ps_resources = [reference ''AWS::StackId''],
       ps_actions = [''cloudformation:DescribeStackResource'',
                     ''cloudformation:SignalResource''],
       ps_conditions = []\<rparr>]"

definition cdk_ecsInstanceCommands :: "string \<Rightarrow> string \<Rightarrow> string list" where
  "cdk_ecsInstanceCommands cid name =
     [''echo ECS_CLUSTER='' @ reference cid @ '' >> /etc/ecs/ecs.config'',
      ''sudo iptables --insert FORWARD 1 --in-interface docker+ ''
        @ ''--destination 169.254.169.254/32 --jump DROP'',
      ''sudo service iptables save'',
      ''echo ECS_AWSVPC_BLOCK_IMDS=true >> /etc/ecs/ecs.config'']"

definition cdk_ecsInstanceStatements :: "string \<Rightarrow> PolicyStatement list" where
  "cdk_ecsInstanceStatements cid =
     [\<lparr>ps_resources = [reference (cid @ ''.Arn'')],
       ps_actions = [''ecs:DeregisterContainerInstance'', ''ecs:RegisterContainerInstance'',
                     ''ecs:Submit*''],
       ps_conditions = []\<rparr>,
      \<lparr>ps_resources = [''*''],
       ps_actions = [''ecs:Poll'', ''ecs:StartTelemetrySession''],
       ps_conditions = [(''ArnEquals'', ''ecs:cluster'', reference (cid @ ''.Arn''))]\<rparr>,
      \<lparr>ps_resources = [''*''],
       ps_actions = [''ecs:DiscoverPollEndpoint'', ''ecr:GetAuthorizationToken'',
                     ''logs:CreateLogStream'', ''logs:PutLogEvents''],
       ps_conditions = []\<rparr>]"

definition cdk :: "string \<Rightarrow> framework" where
  "cdk fingerprint =
     \<lparr>startCase = startCase_names,
      resolveStackName = (\<lambda>sid e. sid),
      cfnInitCommands = cdk_cfnInitCommands fingerprint,
      cfnInitStatements = cdk_cfnInitStatements,
      ecsInstanceCommands = cdk_ecsInstanceCommands,
      ecsInstanceStatements = cdk_ecsInstanceStatements\<rparr>"

section \<open>Evaluating a construction\<close>

text \<open>
  On a stack written out as a record, each operation of the construction is one rewrite
  step, so a constructor is evaluated declaration by declaration.
\<close>

lemma construct_rec:
  "construct cid r \<lparr>stack_id = i, stackName = n, stack_env = e, children = cs\<rparr> =
     (length cs, \<lparr>stack_id = i, stackName = n, stack_env = e, children = cs @ [(cid, r)]\<rparr>)"
  by (simp add: construct_def)

lemma modify_rec:
  "modify h f \<lparr>stack_id = i, stackName = n, stack_env = e, children = cs\<rparr> =
     \<lparr>stack_id = i, stackName = n, stack_env = e, children = modifyAt h (apsnd f) cs\<rparr>"
  by (simp add: modify_def)

lemma serviceName_rec:
  "serviceName h \<lparr>stack_id = i, stackName = n, stack_env = e, children = cs\<rparr> =
     (if h < length cs
      then (case snd (cs ! h) of Ec2Service_new s \<Rightarrow> svc_serviceName s | _ \<Rightarrow> [])
      else [])"
  by (simp add: serviceName_def)

lemma getConstructId_rec:
  "StrapiStack_getConstructId fw
     \<lparr>stack_id = i, stackName = n, stack_env = e, children = cs\<rparr> name =
     ''stack-'' @ i @ ''-'' @ startCase fw name"
  "NextjsStack_getConstructId fw
     \<lparr>stack_id = i, stackName = n, stack_env = e, children = cs\<rparr> name =
     ''stack-'' @ i @ ''-'' @ startCase fw name"
  by (simp_all add: StrapiStack_getConstructId_def NextjsStack_getConstructId_def)

lemma child_rec:
  "child \<lparr>stack_id = i, stackName = n, stack_env = e, children = cs\<rparr> h =
     (if h < length cs then Some (cs ! h) else None)"
  by (simp add: child_def)

lemmas stack_ops = Stack_init_def construct_rec modify_rec serviceName_rec getConstructId_rec
  child_rec addIngressRule_def AutoScalingGroup_construct_def applyCloudFormationInit_def
  addAsgCapacityProvider_def configureAutoScalingGroup_def addContainer_def
  UserData_forLinux_def addCommands_def resourceName_def

text \<open>Each stack of the source is the common construction at its own constants.\<close>

lemma StrapiStack_template:
  "StrapiStack fw sid props = stackTemplate strapiConstants fw sid props"
  by (simp add: StrapiStack_def stackTemplate_def strapiConstants_def stack_ops Let_def
           cong: let_weak_cong)

lemma NextjsStack_template:
  "NextjsStack fw sid props = stackTemplate nextjsConstants fw sid props"
  by (simp add: NextjsStack_def stackTemplate_def nextjsConstants_def stack_ops Let_def
           cong: let_weak_cong)

text \<open>The declarations the common construction leaves in the stack.\<close>

lemma modifyAt_numeral:
  "modifyAt (numeral n) f (x # xs) = x # modifyAt (pred_numeral n) f xs"
  by (simp add: numeral_eq_Suc)

lemma stackTemplate_eval:
  "stackTemplate k fw sid props =
     \<lparr>stack_id = sid,
      stackName = resolveStackName fw sid (env props),
      stack_env = env props,
      children =
        [(''vpc'', Vpc_fromLookup (vpcId props)),
         (resourceName fw sid ''sg'',
          SecurityGroup_new
            \<lparr>sg_vpc = 0, sg_description = securityGroupDescription k,
             sg_allowAllOutbound = True,
             sg_securityGroupName = resourceName fw sid ''sg'',
             sg_ingressRules =
               [(anyIpv4, tcp 22), (anyIpv4, tcp 80), (anyIpv4, tcp 443),
                (anyIpv4, tcp (applicationPort k))]\<rparr>),
         (resourceName fw sid ''keyPair'',
          KeyPair_new \<lparr>kp_keyPairName = resourceName fw sid ''keyPair''\<rparr>),
         (resourceName fw sid ''role'',
          Role_new
            \<lparr>role_roleName = resourceName fw sid ''role'',
             role_assumedBy = ServicePrincipal ''ec2.amazonaws.com'',
             role_inlinePolicies =
               [(''RetentionPolicy'',
                 \<lparr>pd_statements =
                    [\<lparr>ps_resources = [''*''],
                      ps_actions = [''logs:PutRetentionPolicy''],
                      ps_conditions = []\<rparr>]\<rparr>)],
             role_managedPolicies =
               [fromAwsManagedPolicyName ''AmazonSSMManagedInstanceCore'',
                fromAwsManagedPolicyName ''CloudWatchAgentServerPolicy'',
                fromAwsManagedPolicyName
                  ''service-role/AWSAppRunnerServicePolicyForECRAccess'',
                fromAwsManagedPolicyName
                  ''service-role/AmazonEC2ContainerServiceforEC2Role''],
             role_defaultPolicy =
               cfnInitStatements fw
               @ ecsInstanceStatements fw (resourceName fw sid ''cluster'')\<rparr>),
         (resourceName fw sid ''cluster'',
          Cluster_new
            \<lparr>cl_vpc = 0, cl_clusterName = clusterName k, cl_capacityProviders = [7]\<rparr>),
         (resourceName fw sid (launchTemplateId k),
          LaunchTemplate_new
            \<lparr>lt_launchTemplateName = launchTemplateName k,
             lt_securityGroup = 1,
             lt_instanceType = InstanceType_of T2 MICRO,
             lt_keyPair = 2,
             lt_role = 3,
             lt_machineImage = amazonLinux2023,
             lt_userData =
               \<lparr>ud_commands =
                  [''#!/bin/bash'',
                   ''yum update -y'',
                   ''yum install -y aws-cfn-bootstrap'',
                   ''/opt/aws/bin/cfn-signal --stack ''
                     @ resolveStackName fw sid (env props) @ '' --resource ''
                     @ resourceName fw sid ''asg''
                     @ '' --region us-east-1 --exit-code $?'']
                  @ cfnInitCommands fw (resourceName fw sid ''asg'')
                      (resourceName fw sid ''role'')
                      \<lparr>init_configSets = [(''default'', [''config''])],
                       init_configs = [(''config'', [])]\<rparr>
                      \<lparr>includeUrl = True, includeRole = True, printLog = True\<rparr>
                  @ ecsInstanceCommands fw (resourceName fw sid ''cluster'')
                      (clusterName k)\<rparr>\<rparr>),
         (resourceName fw sid ''asg'',
          AutoScalingGroup_new
            \<lparr>asg_autoScalingGroupName = resourceName fw sid ''asg'',
             asg_vpc = 0,
             asg_desiredCapacity = 1,
             asg_minCapacity = 1,
             asg_maxCapacity = 1,
             asg_terminationPolicies = [OLDEST_INSTANCE],
             asg_instanceMonitoring = BASIC,
             asg_init = \<lparr>init_configSets = [(''default'', [''config''])],
                         init_configs = [(''config'', [])]\<rparr>,
             asg_initOptions = \<lparr>includeUrl = True, includeRole = True, printLog = True\<rparr>,
             asg_launchTemplate = 5,
             asg_healthCheck = HealthCheck_ec2 (minutes 5),
             asg_signals = waitForAll (minutes 5)\<rparr>),
         (resourceName fw sid ''AsgCapacityProvider'',
          AsgCapacityProvider_new
            \<lparr>cp_autoScalingGroup = 6, cp_enableManagedTerminationProtection = False\<rparr>),
         (resourceName fw sid ''logGroup'', LogGroup_fromLogGroupName (logGroupName k)),
         (taskDefinitionId k,
          Ec2TaskDefinition_new
            \<lparr>td_family = taskFamily k,
             td_containers =
               [(resourceName fw sid (containerId k),
                 \<lparr>cd_image = fromEcrRepository 10,
                  cd_cpu = 256,
                  cd_memoryReservationMiB = 256,
                  cd_portMappings =
                    [\<lparr>containerPort = applicationPort k, hostPort = 80, protocol = TCP\<rparr>],
                  cd_logging = \<lparr>log_streamPrefix = logStreamPrefix k, log_logGroup = 8\<rparr>,
                  cd_containerName = containerName k,
                  cd_healthCheck =
                    \<lparr>hc_command =
                       [''CMD-SHELL'', ''curl -f '' @ healthCheckUrl k @ '' || exit 1''],
                     hc_interval = seconds 30,
                     hc_timeout = seconds 5,
                     hc_retries = 2,
                     hc_startPeriod = seconds 60\<rparr>\<rparr>)]\<rparr>),
         (resourceName fw sid ''repo'', Repository_fromRepositoryName (repositoryName k)),
         (resourceName fw sid (serviceId k),
          Ec2Service_new
            \<lparr>svc_cluster = 4,
             svc_taskDefinition = 9,
             svc_desiredCount = 1,
             svc_serviceName = resourceName fw sid ''service'',
             svc_minHealthyPercent = 0,
             svc_maxHealthyPercent = 100\<rparr>),
         (''Service Name'',
          CfnOutput_new \<lparr>out_value = resourceName fw sid ''service''\<rparr>)]\<rparr>"
  by (simp add: stackTemplate_def stack_ops Let_def modifyAt_numeral
        numeral_2_eq_2 [symmetric] cong: let_weak_cong)

lemmas selectors = resolve_def networks_def securityGroups_def keyPairs_def roles_def
  clusters_def launchTemplates_def autoScalingGroups_def logGroups_def repositories_def
  taskDefinitions_def containers_def services_def outputs_def

text \<open>The facts that write out the tree of each stack of the source.\<close>

lemmas template_tree = stackTemplate_eval resourceName_def

lemmas StrapiStack_tree = StrapiStack_template strapiConstants_def

lemmas NextjsStack_tree = NextjsStack_template nextjsConstants_def

section \<open>The claims\<close>

text \<open>
  C1. For every resource name \<open>n\<close>, the naming helper \<open>getConstructId\<close> of each stack
  returns \<open>"stack-"\<close>, the stack's id, \<open>"-"\<close> and \<open>startCase n\<close>, in this order. In
  both stacks the construct ids of the security group, the key pair, the role, the
  auto-scaling group, the repository reference, the log-group reference, the container
  and the service are results of this helper, and so are the physical names of the
  security group, the key pair, the role, the auto-scaling group and the service.
\<close>

theorem getConstructId_convention:
  "StrapiStack_getConstructId fw this n = ''stack-'' @ stack_id this @ ''-'' @ startCase fw n
   \<and> NextjsStack_getConstructId fw this n = ''stack-'' @ stack_id this @ ''-'' @ startCase fw n
   \<and> stack_id (StrapiStack fw sid props) = sid
   \<and> stack_id (NextjsStack fw sid props) = sid
   \<and> namedResourceIds (StrapiStack fw sid props) =
       map (StrapiStack_getConstructId fw (StrapiStack fw sid props))
         [''sg'', ''keyPair'', ''role'', ''asg'', ''repo'', ''logGroup'', ''strapiContainer'',
          ''strapi'']
   \<and> physicalNames (StrapiStack fw sid props) =
       map (StrapiStack_getConstructId fw (StrapiStack fw sid props))
         [''sg'', ''keyPair'', ''role'', ''asg'', ''service'']
   \<and> namedResourceIds (NextjsStack fw sid props) =
       map (NextjsStack_getConstructId fw (NextjsStack fw sid props))
         [''sg'', ''keyPair'', ''role'', ''asg'', ''repo'', ''logGroup'', ''nextjsContainer'',
          ''nextjs'']
   \<and> physicalNames (NextjsStack fw sid props) =
       map (NextjsStack_getConstructId fw (NextjsStack fw sid props))
         [''sg'', ''keyPair'', ''role'', ''asg'', ''service'']"
proof -
  have ids: "stack_id (StrapiStack fw sid props) = sid" "stack_id (NextjsStack fw sid props) = sid"
    by (simp_all add: StrapiStack_template NextjsStack_template stackTemplate_eval)
  have s1: "namedResourceIds (StrapiStack fw sid props) =
       map (resourceName fw sid)
         [''sg'', ''keyPair'', ''role'', ''asg'', ''repo'', ''logGroup'', ''strapiContainer'',
          ''strapi'']"
    by (simp add: StrapiStack_template stackTemplate_eval strapiConstants_def
          namedResourceIds_def selectors)
  have s2: "physicalNames (StrapiStack fw sid props) =
       map (resourceName fw sid) [''sg'', ''keyPair'', ''role'', ''asg'', ''service'']"
    by (simp add: StrapiStack_template stackTemplate_eval strapiConstants_def
          physicalNames_def selectors)
  have n1: "namedResourceIds (NextjsStack fw sid props) =
       map (resourceName fw sid)
         [''sg'', ''keyPair'', ''role'', ''asg'', ''repo'', ''logGroup'', ''nextjsContainer'',
          ''nextjs'']"
    by (simp add: NextjsStack_template stackTemplate_eval nextjsConstants_def
          namedResourceIds_def selectors)
  have n2: "physicalNames (NextjsStack fw sid props) =
       map (resourceName fw sid) [''sg'', ''keyPair'', ''role'', ''asg'', ''service'']"
    by (simp add: NextjsStack_template stackTemplate_eval nextjsConstants_def
          physicalNames_def selectors)
  have g: "StrapiStack_getConstructId fw (StrapiStack fw sid props) = resourceName fw sid"
    "NextjsStack_getConstructId fw (NextjsStack fw sid props) = resourceName fw sid"
    by (rule ext, simp add: StrapiStack_getConstructId_def NextjsStack_getConstructId_def
          resourceName_def ids)+
  show ?thesis
    unfolding g s1 s2 n1 n2 ids
    by (simp add: StrapiStack_getConstructId_def NextjsStack_getConstructId_def)
qed

text \<open>
  C2. In both stacks the one auto-scaling group is declared with minimum, maximum and
  desired capacity 1. The auto-scaling groups behind the capacity providers registered
  with the cluster are exactly the auto-scaling groups of the stack, and the one service
  runs on that cluster with desired count 1.
\<close>

theorem scaling_bounds_fixed_at_one:
  "map (\<lambda>(cid, a). scalingBounds a) (autoScalingGroups (StrapiStack fw sid props)) = [(1, 1, 1)]
   \<and> map (\<lambda>(cid, c). capacityOf (StrapiStack fw sid props) c)
         (clusters (StrapiStack fw sid props))
       = [map snd (autoScalingGroups (StrapiStack fw sid props))]
   \<and> map (\<lambda>(cid, x). (resolve (StrapiStack fw sid props) (svc_cluster x), svc_desiredCount x))
         (services (StrapiStack fw sid props))
       = map (\<lambda>(cid, c). (Some (Cluster_new c), 1)) (clusters (StrapiStack fw sid props))
   \<and> map (\<lambda>(cid, a). scalingBounds a) (autoScalingGroups (NextjsStack fw sid props)) = [(1, 1, 1)]
   \<and> map (\<lambda>(cid, c). capacityOf (NextjsStack fw sid props) c)
         (clusters (NextjsStack fw sid props))
       = [map snd (autoScalingGroups (NextjsStack fw sid props))]
   \<and> map (\<lambda>(cid, x). (resolve (NextjsStack fw sid props) (svc_cluster x), svc_desiredCount x))
         (services (NextjsStack fw sid props))
       = map (\<lambda>(cid, c). (Some (Cluster_new c), 1)) (clusters (NextjsStack fw sid props))"
proof (intro conjI)
  show "map (\<lambda>(cid, a). scalingBounds a) (autoScalingGroups (StrapiStack fw sid props)) = [(1, 1, 1)]"
    by (simp add: StrapiStack_tree template_tree selectors scalingBounds_def)
  show "map (\<lambda>(cid, a). scalingBounds a) (autoScalingGroups (NextjsStack fw sid props)) = [(1, 1, 1)]"
    by (simp add: NextjsStack_tree template_tree selectors scalingBounds_def)
  show "map (\<lambda>(cid, c). capacityOf (StrapiStack fw sid props) c)
         (clusters (StrapiStack fw sid props))
       = [map snd (autoScalingGroups (StrapiStack fw sid props))]"
    by (simp add: StrapiStack_tree template_tree selectors capacityOf_def)
  show "map (\<lambda>(cid, c). capacityOf (NextjsStack fw sid props) c)
         (clusters (NextjsStack fw sid props))
       = [map snd (autoScalingGroups (NextjsStack fw sid props))]"
    by (simp add: NextjsStack_tree template_tree selectors capacityOf_def)
  show "map (\<lambda>(cid, x). (resolve (StrapiStack fw sid props) (svc_cluster x), svc_desiredCount x))
         (services (StrapiStack fw sid props))
       = map (\<lambda>(cid, c). (Some (Cluster_new c), 1)) (clusters (StrapiStack fw sid props))"
    by (simp add: StrapiStack_tree template_tree selectors)
  show "map (\<lambda>(cid, x). (resolve (NextjsStack fw sid props) (svc_cluster x), svc_desiredCount x))
         (services (NextjsStack fw sid props))
       = map (\<lambda>(cid, c). (Some (Cluster_new c), 1)) (clusters (NextjsStack fw sid props))"
    by (simp add: NextjsStack_tree template_tree selectors)
qed

text \<open>
  C3. Each stack declares one security group. It allows all outbound traffic and has
  exactly four ingress rules, in this order: TCP 22, TCP 80, TCP 443 and the application
  port (TCP 1337 for the CMS stack, TCP 3000 for the web front-end stack), each from any
  IPv4 address.
\<close>

theorem security_group_rules:
  "map (\<lambda>(cid, g). (sg_allowAllOutbound g, sg_ingressRules g))
       (securityGroups (StrapiStack fw sid props))
     = [(True, [(anyIpv4, tcp 22), (anyIpv4, tcp 80), (anyIpv4, tcp 443), (anyIpv4, tcp 1337)])]
   \<and> map (\<lambda>(cid, g). (sg_allowAllOutbound g, sg_ingressRules g))
       (securityGroups (NextjsStack fw sid props))
     = [(True, [(anyIpv4, tcp 22), (anyIpv4, tcp 80), (anyIpv4, tcp 443), (anyIpv4, tcp 3000)])]"
  by (simp add: StrapiStack_tree NextjsStack_tree template_tree selectors)

text \<open>
  C4. Each stack declares one task definition with exactly one container, and the
  container has exactly one port mapping: container port 1337 (CMS) or 3000 (web
  front-end), host port 80, protocol TCP. The container port is the application port of
  the stack: the port of the ingress rule that follows the three rules for ports 22, 80
  and 443 in the stack's security group.
\<close>

theorem container_port_mapping:
  "map (\<lambda>(cid, t). map (\<lambda>(cid, c). cd_portMappings c) (td_containers t))
       (taskDefinitions (StrapiStack fw sid props))
     = [[[\<lparr>containerPort = 1337, hostPort = 80, protocol = TCP\<rparr>]]]
   \<and> map (\<lambda>(cid, t). map (\<lambda>(cid, c). cd_portMappings c) (td_containers t))
       (taskDefinitions (NextjsStack fw sid props))
     = [[[\<lparr>containerPort = 3000, hostPort = 80, protocol = TCP\<rparr>]]]
   \<and> map (\<lambda>(cid, c). map (\<lambda>m. (anyIpv4, tcp (containerPort m))) (cd_portMappings c))
       (containers (StrapiStack fw sid props))
     = map (\<lambda>(cid, g). drop 3 (sg_ingressRules g)) (securityGroups (StrapiStack fw sid props))
   \<and> map (\<lambda>(cid, c). map (\<lambda>m. (anyIpv4, tcp (containerPort m))) (cd_portMappings c))
       (containers (NextjsStack fw sid props))
     = map (\<lambda>(cid, g). drop 3 (sg_ingressRules g)) (securityGroups (NextjsStack fw sid props))"
  by (simp add: StrapiStack_tree NextjsStack_tree template_tree selectors)

text \<open>
  C5. In both stacks the health check of the container has interval 30 seconds, timeout
  5 seconds, 2 retries and start period 60 seconds, and the health check of the
  auto-scaling group is the EC2 check with a grace period of 5 minutes (300 seconds).
\<close>

theorem health_check_timing:
  "map (\<lambda>(cid, c). (hc_interval (cd_healthCheck c), hc_timeout (cd_healthCheck c),
                     hc_retries (cd_healthCheck c), hc_startPeriod (cd_healthCheck c)))
       (containers (StrapiStack fw sid props))
     = [(seconds 30, seconds 5, 2, seconds 60)]
   \<and> map (\<lambda>(cid, c). (hc_interval (cd_healthCheck c), hc_timeout (cd_healthCheck c),
                     hc_retries (cd_healthCheck c), hc_startPeriod (cd_healthCheck c)))
       (containers (NextjsStack fw sid props))
     = [(seconds 30, seconds 5, 2, seconds 60)]
   \<and> map (\<lambda>(cid, a). asg_healthCheck a) (autoScalingGroups (StrapiStack fw sid props))
     = [HealthCheck_ec2 (minutes 5)]
   \<and> map (\<lambda>(cid, a). asg_healthCheck a) (autoScalingGroups (NextjsStack fw sid props))
     = [HealthCheck_ec2 (minutes 5)]
   \<and> map toSeconds [seconds 30, seconds 5, seconds 60, minutes 5] = [30, 5, 60, 300]"
  by (simp add: StrapiStack_tree NextjsStack_tree template_tree selectors)

text \<open>
  C6 (as amended). Each stack declares one role. It is assumed by the service principal
  \<open>ec2.amazonaws.com\<close>; it is declared with one inline policy, \<open>RetentionPolicy\<close>, whose
  only statement has the action \<open>logs:PutRetentionPolicy\<close> on the resources \<open>*\<close>; its
  managed policies are \<open>AmazonSSMManagedInstanceCore\<close> (systems management),
  \<open>CloudWatchAgentServerPolicy\<close> (monitoring), and
  \<open>service-role/AWSAppRunnerServicePolicyForECRAccess\<close> and
  \<open>service-role/AmazonEC2ContainerServiceforEC2Role\<close> (access to the container registry
  for the container instance). Besides these the role carries a default policy: the
  statements the framework adds for the CloudFormation init of the auto-scaling group,
  then those it adds when the capacity provider is registered with the cluster.
\<close>

theorem execution_role_as_built:
  "map snd (roles (StrapiStack fw sid props))
     = [\<lparr>role_roleName = StrapiStack_getConstructId fw (StrapiStack fw sid props) ''role'',
         role_assumedBy = ServicePrincipal ''ec2.amazonaws.com'',
         role_inlinePolicies =
           [(''RetentionPolicy'',
             \<lparr>pd_statements =
                [\<lparr>ps_resources = [''*''], ps_actions = [''logs:PutRetentionPolicy''],
                  ps_conditions = []\<rparr>]\<rparr>)],
         role_managedPolicies =
           [fromAwsManagedPolicyName ''AmazonSSMManagedInstanceCore'',
            fromAwsManagedPolicyName ''CloudWatchAgentServerPolicy'',
            fromAwsManagedPolicyName ''service-role/AWSAppRunnerServicePolicyForECRAccess'',
            fromAwsManagedPolicyName ''service-role/AmazonEC2ContainerServiceforEC2Role''],
         role_defaultPolicy =
           cfnInitStatements fw
           @ ecsInstanceStatements fw
               (StrapiStack_getConstructId fw (StrapiStack fw sid props) ''cluster'')\<rparr>]
   \<and> map snd (roles (NextjsStack fw sid props))
     = [\<lparr>role_roleName = NextjsStack_getConstructId fw (NextjsStack fw sid props) ''role'',
         role_assumedBy = ServicePrincipal ''ec2.amazonaws.com'',
         role_inlinePolicies =
           [(''RetentionPolicy'',
             \<lparr>pd_statements =
                [\<lparr>ps_resources = [''*''], ps_actions = [''logs:PutRetentionPolicy''],
                  ps_conditions = []\<rparr>]\<rparr>)],
         role_managedPolicies =
           [fromAwsManagedPolicyName ''AmazonSSMManagedInstanceCore'',
            fromAwsManagedPolicyName ''CloudWatchAgentServerPolicy'',
            fromAwsManagedPolicyName ''service-role/AWSAppRunnerServicePolicyForECRAccess'',
            fromAwsManagedPolicyName ''service-role/AmazonEC2ContainerServiceforEC2Role''],
         role_defaultPolicy =
           cfnInitStatements fw
           @ ecsInstanceStatements fw
               (NextjsStack_getConstructId fw (NextjsStack fw sid props) ''cluster'')\<rparr>]"
  by (simp add: StrapiStack_tree NextjsStack_tree template_tree selectors
        StrapiStack_getConstructId_def NextjsStack_getConstructId_def)

text \<open>
  C6 as it was stated fails: run with the framework above, the role of the CMS stack
  does not carry the retention policy alone. Its default policy holds the statements
  for \<open>cfn-init\<close> and \<open>cfn-signal\<close> and those of an ECS container instance.
\<close>

theorem execution_role_counterexample:
  "rolePolicies
     (StrapiStack (cdk ''0123456789abcdef'') ''strapi''
        \<lparr>env = Some \<lparr>account = Some ''123456789012'', region = Some ''eu-west-1''\<rparr>,
         vpcId = ''vpc-0c92b6779493dfa0c''\<rparr>)
   \<noteq> [[[\<lparr>ps_resources = [''*''], ps_actions = [''logs:PutRetentionPolicy''],
          ps_conditions = []\<rparr>]]]"
  by (simp add: StrapiStack_tree template_tree selectors rolePolicies_def
        carriedPolicies_def cdk_def cdk_cfnInitStatements_def)

text \<open>
  C7. Each stack declares exactly one output, and its value is the name of the one
  service of the stack, which is \<open>getConstructId('service')\<close>.
\<close>

theorem single_output_is_service_name:
  "map (\<lambda>(cid, out). out_value out) (outputs (StrapiStack fw sid props))
     = map (\<lambda>(cid, x). svc_serviceName x) (services (StrapiStack fw sid props))
   \<and> map (\<lambda>(cid, out). out_value out) (outputs (StrapiStack fw sid props))
     = [StrapiStack_getConstructId fw (StrapiStack fw sid props) ''service'']
   \<and> map (\<lambda>(cid, out). out_value out) (outputs (NextjsStack fw sid props))
     = map (\<lambda>(cid, x). svc_serviceName x) (services (NextjsStack fw sid props))
   \<and> map (\<lambda>(cid, out). out_value out) (outputs (NextjsStack fw sid props))
     = [NextjsStack_getConstructId fw (NextjsStack fw sid props) ''service'']"
  by (simp add: StrapiStack_tree NextjsStack_tree template_tree selectors
        StrapiStack_getConstructId_def NextjsStack_getConstructId_def)

text \<open>
  C8. The two stacks are the same construction at different constants: each constructor
  of the source equals the common construction at its own record of constants, for every
  stack id and props. Both leave the same sequence of declarations: network lookup,
  security group, key pair, role, cluster, launch template, auto-scaling group, capacity
  provider, log-group reference (of the log driver), task definition with its container,
  repository reference, service, output. The entry point builds both at the same props,
  so both look up the same network identifier.
\<close>

theorem stacks_are_one_construction:
  "StrapiStack fw sid props = stackTemplate strapiConstants fw sid props
   \<and> NextjsStack fw sid props = stackTemplate nextjsConstants fw sid props
   \<and> declarations (StrapiStack fw sid props)
     = [NetworkLookup, SecurityGroupK, KeyPairK, RoleK, ClusterK, LaunchTemplateK,
        AutoScalingGroupK, CapacityProviderK, LogGroupK, TaskDefinitionK, ContainerK,
        RepositoryK, ServiceK, OutputK]
   \<and> declarations (NextjsStack fw sid' props') = declarations (StrapiStack fw sid props)
   \<and> infra_sample fw process_env
     = [stackTemplate strapiConstants fw ''strapi''
          \<lparr>env = env (commonStackProps process_env), vpcId = commonVpcId\<rparr>,
        stackTemplate nextjsConstants fw ''nextjs''
          \<lparr>env = env (commonStackProps process_env), vpcId = commonVpcId\<rparr>]
   \<and> map networks (infra_sample fw process_env)
     = [[(''vpc'', commonVpcId)], [(''vpc'', commonVpcId)]]"
proof -
  have d: "declarations (stackTemplate k fw sid props)
     = [NetworkLookup, SecurityGroupK, KeyPairK, RoleK, ClusterK, LaunchTemplateK,
        AutoScalingGroupK, CapacityProviderK, LogGroupK, TaskDefinitionK, ContainerK,
        RepositoryK, ServiceK, OutputK]" for k sid props
    by (simp add: stackTemplate_eval declarations_def)
  have n: "networks (stackTemplate k fw sid props) = [(''vpc'', vpcId props)]" for k sid props
    by (simp add: stackTemplate_eval selectors)
  show ?thesis
    by (simp add: StrapiStack_template NextjsStack_template d n infra_sample_def)
qed



text \<open>
  C10. In both stacks the service is declared with minimum healthy percent 0, maximum
  healthy percent 100 and desired count 1. So no task has to keep running during a
  deployment, and no more than the one desired task may run at once: the running task is
  stopped before its replacement starts.
\<close>

theorem deployment_may_stop_the_only_task:
  "map (\<lambda>(cid, x). (svc_minHealthyPercent x, svc_maxHealthyPercent x, svc_desiredCount x,
                     minRunningTasks x, maxRunningTasks x))
       (services (StrapiStack fw sid props))
     = [(0, 100, 1, 0, 1)]
   \<and> map (\<lambda>(cid, x). (svc_minHealthyPercent x, svc_maxHealthyPercent x, svc_desiredCount x,
                     minRunningTasks x, maxRunningTasks x))
       (services (NextjsStack fw sid props))
     = [(0, 100, 1, 0, 1)]"
  by (simp add: StrapiStack_tree NextjsStack_tree template_tree selectors minRunningTasks_def
        maxRunningTasks_def)

end
